theory Spec2Isabelle
  imports Main
begin

section \<open>Python strings and \<open>str.split\<close>\<close>

text \<open>
  A Python \<open>str\<close> is a sequence of Unicode code points; \<open>len\<close> and \<open>split\<close> work on
  code points, so a string is modelled as the list of its code points. \<open>py\<close> turns an
  ASCII literal into that representation.
\<close>

type_synonym pystr = "nat list"

definition py :: "string \<Rightarrow> pystr" where
  "py s = map of_char s"

text \<open>
  The code points \<open>str.split()\<close> (no separator) treats as whitespace: U+0009..U+000D,
  U+001C..U+0020, U+0085, U+00A0, U+1680, U+2000..U+200A, U+2028, U+2029, U+202F, U+205F
  and U+3000.
\<close>

definition isspace :: "nat \<Rightarrow> bool" where
  "isspace c \<longleftrightarrow>
     (9 \<le> c \<and> c \<le> 13) \<or> (28 \<le> c \<and> c \<le> 32) \<or> c = 133 \<or> c = 160 \<or> c = 5760 \<or>
     (8192 \<le> c \<and> c \<le> 8202) \<or> c = 8232 \<or> c = 8233 \<or> c = 8239 \<or> c = 8287 \<or> c = 12288"

text \<open>
  \<open>text.split()\<close>: skip the whitespace in front, take the run of non-whitespace code
  points that follows as one token, and go on behind it; no empty token is produced.
\<close>

function str_split :: "pystr \<Rightarrow> pystr list" where
  "str_split s =
     (case dropWhile isspace s of
        [] \<Rightarrow> []
      | c # cs \<Rightarrow>
          (c # takeWhile (\<lambda>x. \<not> isspace x) cs) # str_split (dropWhile (\<lambda>x. \<not> isspace x) cs))"
  by pat_completeness auto
termination
proof (relation "measure length")
  show "wf (measure length)" by simp
next
  fix s :: pystr and c cs
  assume "dropWhile isspace s = c # cs"
  then have "length s \<ge> Suc (length cs)"
    using length_dropWhile_le [of isspace s] by simp
  moreover have "length (dropWhile (\<lambda>x. \<not> isspace x) cs) \<le> length cs"
    by (rule length_dropWhile_le)
  ultimately show "(dropWhile (\<lambda>x. \<not> isspace x) cs, s) \<in> measure length"
    by simp
qed

declare str_split.simps [simp del]

text \<open>
  The specification's wording, "the number of whitespace-separated tokens": a token
  starts at every non-whitespace code point that stands at the beginning of the text or
  right behind a whitespace code point. The flag says whether the scan is inside a token.
\<close>

fun spec_token_count_from :: "bool \<Rightarrow> pystr \<Rightarrow> nat" where
  "spec_token_count_from inside [] = 0"
| "spec_token_count_from inside (c # cs) =
     (if isspace c then spec_token_count_from False cs
      else (if inside then 0 else 1) + spec_token_count_from True cs)"

definition spec_token_count :: "pystr \<Rightarrow> nat" where
  "spec_token_count s = spec_token_count_from False s"

text \<open>\<open>str(n)\<close> of an integer, as an f-string prints it: decimal digits, a minus sign in front.\<close>

function str_nat :: "nat \<Rightarrow> pystr" where
  "str_nat n = (if n < 10 then [48 + n] else str_nat (n div 10) @ [48 + n mod 10])"
  by pat_completeness auto
termination
  by (relation "measure id") auto

declare str_nat.simps [simp del]

definition str_int :: "int \<Rightarrow> pystr" where
  "str_int i = (if i < 0 then 45 # str_nat (nat (- i)) else str_nat (nat i))"

section \<open>Schema (models.py)\<close>

datatype EntryStatus = DRAFT | PUBLISHED | ARCHIVED

text \<open>The string value of each member of the \<open>str\<close> enumeration.\<close>

fun EntryStatus_value :: "EntryStatus \<Rightarrow> pystr" where
  "EntryStatus_value DRAFT = py ''draft''"
| "EntryStatus_value PUBLISHED = py ''published''"
| "EntryStatus_value ARCHIVED = py ''archived''"

datatype date = Date (year: nat) (month: nat) (day: nat)

text \<open>A JSON column: a dictionary from string keys to JSON values.\<close>

datatype json = JNull | JInt int | JStr pystr | JDict "(pystr \<times> json) list"

record User =
  user_id :: int
  name :: pystr
  email :: pystr
  password_hash :: pystr
  role :: int

text \<open>The request body after validation (main.py, \<open>EntryCreateRequest\<close>).\<close>

record EntryCreateRequest =
  "text" :: pystr
  entry_status :: EntryStatus

text \<open>The structured output of the model (main.py, \<open>SimplifiedAnalysis\<close>).\<close>

record SimplifiedAnalysis =
  sentimentScore :: int
  counsel :: pystr

text \<open>
  A row of \<open>journal_entry\<close>. The primary key is \<open>None\<close> until the row is inserted
  (\<open>autoincrement=True\<close>); the timestamps, which the database fills in, are left out.
\<close>

record JournalEntry =
  journal_entry_id :: "int option"
  user_id :: int
  entry_date :: date
  "text" :: "pystr option"
  sentiment_score :: "int option"
  ai_suggestion :: "(pystr \<times> json) list option"
  chat_log :: "(pystr \<times> json) list option"
  entry_status :: "EntryStatus option"
  word_count :: int

section \<open>Errors, the outside world and the database\<close>

text \<open>A Python exception, with the text \<open>str(e)\<close> gives for it.\<close>

datatype py_exception = PyException (str: pystr)

text \<open>
  What a request can end with instead of a result: an \<open>HTTPException\<close> raised by the
  code, or the framework's validation error for a body that does not fit
  \<open>EntryCreateRequest\<close> (status 422).
\<close>

datatype http_error = HTTPException (status_code: nat) (detail: pystr) | RequestValidationError

text \<open>What the code does to the outside, in order.\<close>

datatype event =
    SessionOpen nat
  | SessionClose nat
  | SessionGet int
  | LLMInvoke pystr
  | SessionAdd
  | SessionCommit
  | SessionRefresh
  | SessionRollback

text \<open>
  The collaborators the code calls and does not contain: the model (\<open>llm.invoke\<close>
  returns the content of the answer or raises), the output parser (\<open>parser.parse\<close>
  returns a \<open>SimplifiedAnalysis\<close> or raises), the parser's format instructions, the
  clock, and the faults of the database at the two calls that talk to it inside the
  handler's \<open>try\<close> block, \<open>session.commit\<close> and \<open>session.refresh\<close>. Outside of that
  block the database is taken to answer.
\<close>

record env =
  format_instructions :: pystr
  llm_invoke :: "pystr \<Rightarrow> py_exception + pystr"
  parser_parse :: "pystr \<Rightarrow> py_exception + SimplifiedAnalysis"
  today :: date
  commit_fault :: "py_exception option"
  refresh_fault :: "py_exception option"

text \<open>
  The database with its two tables, the sequence behind the autoincrement key, the
  sessions that are open, and the trace of events.
\<close>

record world =
  user_table :: "User list"
  journal_entry_table :: "JournalEntry list"
  journal_entry_seq :: int
  open_sessions :: "nat list"
  session_seq :: nat
  trace :: "event list"

text \<open>A session: its handle and the objects added and not yet flushed.\<close>

record session =
  sid :: nat
  new :: "JournalEntry list"

definition emit :: "event \<Rightarrow> world \<Rightarrow> world" where
  "emit ev w = w\<lparr>trace := trace w @ [ev]\<rparr>"

section \<open>Session operations\<close>

text \<open>\<open>session.get(User, x)\<close>: the row with that primary key, or \<open>None\<close>.\<close>

definition session_get :: "int \<Rightarrow> session \<Rightarrow> world \<Rightarrow> User option \<times> world" where
  "session_get x s w = (find (\<lambda>u. User.user_id u = x) (user_table w), emit (SessionGet x) w)"

definition session_add :: "JournalEntry \<Rightarrow> session \<Rightarrow> world \<Rightarrow> session \<times> world" where
  "session_add obj s w = (s\<lparr>new := new s @ [obj]\<rparr>, emit SessionAdd w)"

text \<open>An INSERT: a row without a key takes the next value of the sequence.\<close>

definition insert_row :: "world \<Rightarrow> JournalEntry \<Rightarrow> world" where
  "insert_row w obj =
     (case journal_entry_id obj of
        None \<Rightarrow>
          w\<lparr>journal_entry_table :=
               journal_entry_table w @ [obj\<lparr>journal_entry_id := Some (journal_entry_seq w)\<rparr>],
            journal_entry_seq := journal_entry_seq w + 1\<rparr>
      | Some i \<Rightarrow> w\<lparr>journal_entry_table := journal_entry_table w @ [obj]\<rparr>)"

text \<open>
  \<open>session.commit()\<close>: flush the pending objects and commit, or raise and leave the
  tables as they were.
\<close>

definition session_commit ::
  "env \<Rightarrow> session \<Rightarrow> world \<Rightarrow> (py_exception + unit) \<times> session \<times> world" where
  "session_commit e s w =
     (case commit_fault e of
        Some ex \<Rightarrow> (Inl ex, s, emit SessionCommit w)
      | None \<Rightarrow> (Inr (), s\<lparr>new := []\<rparr>, foldl insert_row (emit SessionCommit w) (new s)))"

text \<open>\<open>session.refresh(obj)\<close>: read the row back, or raise.\<close>

definition session_refresh ::
  "env \<Rightarrow> session \<Rightarrow> world \<Rightarrow> (py_exception + unit) \<times> session \<times> world" where
  "session_refresh e s w =
     (case refresh_fault e of
        Some ex \<Rightarrow> (Inl ex, s, emit SessionRefresh w)
      | None \<Rightarrow> (Inr (), s, emit SessionRefresh w))"

text \<open>\<open>session.rollback()\<close>: drop what is pending; committed rows stay.\<close>

definition session_rollback :: "session \<Rightarrow> world \<Rightarrow> session \<times> world" where
  "session_rollback s w = (s\<lparr>new := []\<rparr>, emit SessionRollback w)"

section \<open>Session Provider (database.py)\<close>

text \<open>
  \<open>get_session\<close> is a generator around \<open>with Session(engine) as session: yield
  session\<close>. The request runs at the \<open>yield\<close>; the \<open>with\<close> block closes the session
  it opened when the request is over, whether it produced a result or an exception came
  back through the \<open>yield\<close>. The request is the function \<open>request\<close>, its outcome (result or
  error) the first component of what it returns.
\<close>

definition session_close :: "nat \<Rightarrow> world \<Rightarrow> world" where
  "session_close n w = emit (SessionClose n) (w\<lparr>open_sessions := removeAll n (open_sessions w)\<rparr>)"

text \<open>The world in which the request runs, once the provider has opened its session.\<close>

definition opened :: "world \<Rightarrow> world" where
  "opened w = emit (SessionOpen (session_seq w))
                (w\<lparr>session_seq := Suc (session_seq w),
                   open_sessions := session_seq w # open_sessions w\<rparr>)"

definition get_session :: "world \<Rightarrow> (session \<Rightarrow> world \<Rightarrow> 'a \<times> session \<times> world) \<Rightarrow> 'a \<times> world" where
  "get_session w request =
     (let n = session_seq w;
          (r, s', w2) = request \<lparr>sid = n, new = []\<rparr> (opened w)
      in (r, session_close n w2))"

section \<open>Authenticator (auth.py)\<close>

definition get_current_user ::
  "int option \<Rightarrow> session \<Rightarrow> world \<Rightarrow> (http_error + User) \<times> world" where
  "get_current_user x_user_id s w =
     (case x_user_id of
        None \<Rightarrow>
          (Inl (HTTPException 401 (py ''User ID must be provided in the 'X-User-Id' header.'')), w)
      | Some x \<Rightarrow>
          (case session_get x s w of
             (None, w') \<Rightarrow>
               (Inl (HTTPException 404 (py ''User with ID '' @ str_int x @ py '' not found.'')), w')
           | (Some user, w') \<Rightarrow> (Inr user, w')))"

section \<open>Analysis Requester and Entry Handler (main.py)\<close>

text \<open>
  The request body as it arrives: \<open>text\<close> and \<open>entry_status\<close>, each present or not.
  Building \<open>EntryCreateRequest\<close> from it needs \<open>text\<close>; \<open>entry_status\<close> is looked up
  among the values of the enumeration and has the default \<open>EntryStatus.PUBLISHED\<close>.
\<close>

record body =
  body_text :: "pystr option"
  body_entry_status :: "pystr option"

definition EntryStatus_of_value :: "pystr \<Rightarrow> EntryStatus option" where
  "EntryStatus_of_value v = find (\<lambda>st. EntryStatus_value st = v) [DRAFT, PUBLISHED, ARCHIVED]"

definition EntryCreateRequest_validate :: "body \<Rightarrow> http_error + EntryCreateRequest" where
  "EntryCreateRequest_validate b =
     (case body_text b of
        None \<Rightarrow> Inl RequestValidationError
      | Some t \<Rightarrow>
          (case body_entry_status b of
             None \<Rightarrow> Inr \<lparr>EntryCreateRequest.text = t, EntryCreateRequest.entry_status = PUBLISHED\<rparr>
           | Some v \<Rightarrow>
               (case EntryStatus_of_value v of
                  None \<Rightarrow> Inl RequestValidationError
                | Some st \<Rightarrow>
                    Inr \<lparr>EntryCreateRequest.text = t, EntryCreateRequest.entry_status = st\<rparr>)))"

text \<open>\<open>prompt.invoke({"entry": text})\<close>: the template with both variables filled in.\<close>

definition prompt_invoke :: "env \<Rightarrow> pystr \<Rightarrow> pystr" where
  "prompt_invoke e entry =
     10 # py ''You are a compassionate journaling assistant. Analyze the following journal entry.''
     @ 10 # py ''Follow the instructions and format your response to match the format instructions, no matter what!''
     @ 10 # format_instructions e
     @ 10 # py ''---''
     @ 10 # py ''JOURNAL ENTRY:''
     @ 10 # entry
     @ [10]"

text \<open>
  The first \<open>try\<close> block: \<open>llm.invoke\<close>, then \<open>parser.parse\<close> on the content of the
  answer; whichever raises ends the block.
\<close>

definition request_analysis :: "env \<Rightarrow> pystr \<Rightarrow> py_exception + SimplifiedAnalysis" where
  "request_analysis e final_prompt =
     (case llm_invoke e final_prompt of
        Inl ex \<Rightarrow> Inl ex
      | Inr content \<Rightarrow> parser_parse e content)"

text \<open>The \<open>JournalEntry(...)\<close> the handler builds (main.py, lines 107 to 115).\<close>

definition db_journal_entry ::
  "env \<Rightarrow> EntryCreateRequest \<Rightarrow> User \<Rightarrow> SimplifiedAnalysis \<Rightarrow> JournalEntry" where
  "db_journal_entry e entry_data current_user analysis_result =
     \<lparr>journal_entry_id = None,
      user_id = User.user_id current_user,
      entry_date = today e,
      text = Some (EntryCreateRequest.text entry_data),
      sentiment_score = Some (sentimentScore analysis_result),
      ai_suggestion = Some [(py ''counsel'', JStr (counsel analysis_result))],
      chat_log = None,
      entry_status = Some (EntryCreateRequest.entry_status entry_data),
      word_count = int (length (str_split (EntryCreateRequest.text entry_data)))\<rparr>"

definition analyze_and_save_entry ::
  "env \<Rightarrow> EntryCreateRequest \<Rightarrow> User \<Rightarrow> session \<Rightarrow> world
     \<Rightarrow> (http_error + SimplifiedAnalysis) \<times> session \<times> world" where
  "analyze_and_save_entry e entry_data current_user s w =
     (if EntryCreateRequest.text entry_data = [] then
        (Inl (HTTPException 400 (py ''Entry text cannot be empty.'')), s, w)
      else
        let final_prompt = prompt_invoke e (EntryCreateRequest.text entry_data);
            w1 = emit (LLMInvoke final_prompt) w
        in case request_analysis e final_prompt of
             Inl ex \<Rightarrow>
               (Inl (HTTPException 500
                       (py ''Failed to get a structured response from the AI: '' @ str ex)), s, w1)
           | Inr analysis_result \<Rightarrow>
               let (s2, w2) =
                     session_add (db_journal_entry e entry_data current_user analysis_result) s w1
               in (case session_commit e s2 w2 of
                     (Inl db_e, s3, w3) \<Rightarrow>
                       let (s4, w4) = session_rollback s3 w3
                       in (Inl (HTTPException 500
                                  (py ''Failed to save the entry to the database: '' @ str db_e)),
                           s4, w4)
                   | (Inr u, s3, w3) \<Rightarrow>
                       (case session_refresh e s3 w3 of
                          (Inl db_e, s4, w4) \<Rightarrow>
                            let (s5, w5) = session_rollback s4 w4
                            in (Inl (HTTPException 500
                                       (py ''Failed to save the entry to the database: '' @ str db_e)),
                                s5, w5)
                        | (Inr u', s4, w4) \<Rightarrow> (Inr analysis_result, s4, w4))))"

text \<open>
  \<open>POST /analyze-entry\<close>: the framework resolves \<open>Depends(get_session)\<close> once for the
  request, then \<open>Depends(get_current_user)\<close> on that session, validates the body, and
  calls the handler; an error at any step ends the request, and the session provider
  closes the session behind it.
\<close>

definition post_analyze_entry ::
  "env \<Rightarrow> world \<Rightarrow> int option \<Rightarrow> body \<Rightarrow> (http_error + SimplifiedAnalysis) \<times> world" where
  "post_analyze_entry e w x_user_id b =
     get_session w (\<lambda>s w1.
       case get_current_user x_user_id s w1 of
         (Inl err, w2) \<Rightarrow> (Inl err, s, w2)
       | (Inr current_user, w2) \<Rightarrow>
           (case EntryCreateRequest_validate b of
              Inl err \<Rightarrow> (Inl err, s, w2)
            | Inr entry_data \<Rightarrow> analyze_and_save_entry e entry_data current_user s w2))"

section \<open>A concrete database, requests and collaborators\<close>

definition user7 :: User where
  "user7 = \<lparr>User.user_id = 7, name = py ''Ada'', email = py ''ada@example.org'',
             password_hash = py ''x'', role = 0\<rparr>"

definition world7 :: world where
  "world7 = \<lparr>user_table = [user7], journal_entry_table = [], journal_entry_seq = 1,
              open_sessions = [], session_seq = 0, trace = []\<rparr>"

definition body_today :: body where
  "body_today = \<lparr>body_text = Some (py ''Today was a good day.''), body_entry_status = None\<rparr>"

definition body_blank :: body where
  "body_blank = \<lparr>body_text = Some (py '' ''), body_entry_status = Some (py ''draft'')\<rparr>"

definition request_today :: EntryCreateRequest where
  "request_today = \<lparr>EntryCreateRequest.text = py ''Today was a good day.'',
                     EntryCreateRequest.entry_status = PUBLISHED\<rparr>"

definition session0 :: session where
  "session0 = \<lparr>sid = 0, new = []\<rparr>"

text \<open>A model that answers within the bounds the prompt asks for.\<close>

definition env_ok :: env where
  "env_ok = \<lparr>format_instructions = py ''Return a JSON object.'',
              llm_invoke = (\<lambda>p. Inr (py ''{}'')),
              parser_parse = (\<lambda>c. Inr \<lparr>sentimentScore = 8, counsel = py ''Keep it up.''\<rparr>),
              today = Date 2025 6 1,
              commit_fault = None,
              refresh_fault = None\<rparr>"

text \<open>A model whose answer parses and ignores the bounds of the prompt.\<close>

definition env_unbounded :: env where
  "env_unbounded = env_ok\<lparr>parser_parse := (\<lambda>c. Inr \<lparr>sentimentScore = 42, counsel = []\<rparr>)\<rparr>"

definition env_llm_down :: env where
  "env_llm_down = env_ok\<lparr>llm_invoke := (\<lambda>p. Inl (PyException (py ''timeout'')))\<rparr>"

definition env_bad_output :: env where
  "env_bad_output = env_ok\<lparr>parser_parse := (\<lambda>c. Inl (PyException (py ''Invalid json output'')))\<rparr>"

definition env_commit_fault :: env where
  "env_commit_fault = env_ok\<lparr>commit_fault := Some (PyException (py ''connection lost''))\<rparr>"

text \<open>A database that commits and then fails to answer the read that follows.\<close>

definition env_refresh_fault :: env where
  "env_refresh_fault = env_ok\<lparr>refresh_fault := Some (PyException (py ''connection lost''))\<rparr>"

text \<open>
  What the specification says of a successful analysis: the score within -10 and 10, the
  counsel not empty.
\<close>

definition spec_analysis_guarantee :: "SimplifiedAnalysis \<Rightarrow> bool" where
  "spec_analysis_guarantee a \<longleftrightarrow> - 10 \<le> sentimentScore a \<and> sentimentScore a \<le> 10 \<and> counsel a \<noteq> []"

section \<open>Splitting and counting tokens\<close>

lemma str_split_Nil: "str_split [] = []"
  by (simp add: str_split.simps)

lemma str_split_space: "isspace c \<Longrightarrow> str_split (c # cs) = str_split cs"
  by (simp add: str_split.simps [of "c # cs"] str_split.simps [of cs])

lemma str_split_token:
  "\<not> isspace c \<Longrightarrow>
   str_split (c # cs) =
     (c # takeWhile (\<lambda>x. \<not> isspace x) cs) # str_split (dropWhile (\<lambda>x. \<not> isspace x) cs)"
  by (simp add: str_split.simps [of "c # cs"])

lemma count_skip_space:
  "spec_token_count_from False (dropWhile isspace s) = spec_token_count_from False s"
  by (induction s) simp_all

lemma count_skip_token:
  "spec_token_count_from False (dropWhile (\<lambda>x. \<not> isspace x) cs) = spec_token_count_from True cs"
  by (induction cs) simp_all

lemma length_str_split: "length (str_split s) = spec_token_count s"
  unfolding spec_token_count_def
proof (induction s rule: str_split.induct)
  case (1 s)
  show ?case
  proof (cases "dropWhile isspace s")
    case Nil
    have "spec_token_count_from False (dropWhile isspace s) = 0"
      unfolding Nil by simp
    then have "spec_token_count_from False s = 0"
      by (simp only: count_skip_space)
    moreover have "str_split s = []"
      by (simp add: str_split.simps [of s] Nil)
    ultimately show ?thesis by simp
  next
    case (Cons c cs)
    then have c: "\<not> isspace c"
      using hd_dropWhile [of isspace s] by simp
    have "length (str_split s) = Suc (length (str_split (dropWhile (\<lambda>x. \<not> isspace x) cs)))"
      by (simp add: str_split.simps [of s] Cons)
    also have "\<dots> = Suc (spec_token_count_from False (dropWhile (\<lambda>x. \<not> isspace x) cs))"
      using "1.IH" [OF Cons] by simp
    also have "\<dots> = spec_token_count_from False (c # cs)"
      using c by (simp add: count_skip_token)
    also have "\<dots> = spec_token_count_from False s"
      using count_skip_space [of s] by (simp only: Cons)
    finally show ?thesis .
  qed
qed


lemma str_split_empty_iff: "str_split s = [] \<longleftrightarrow> (\<forall>c\<in>set s. isspace c)"
proof (induction s)
  case Nil
  show ?case by (simp add: str_split_Nil)
next
  case (Cons c cs)
  then show ?case
    by (cases "isspace c") (simp_all add: str_split_space str_split_token)
qed

section \<open>The paths of the handler and of a request\<close>

lemma emit_simps:
  "user_table (emit ev w) = user_table w"
  "journal_entry_table (emit ev w) = journal_entry_table w"
  "journal_entry_seq (emit ev w) = journal_entry_seq w"
  "open_sessions (emit ev w) = open_sessions w"
  "session_seq (emit ev w) = session_seq w"
  "trace (emit ev w) = trace w @ [ev]"
  by (simp_all add: emit_def)

lemma insert_row_db_journal_entry:
  "insert_row w (db_journal_entry e d u a) =
     w\<lparr>journal_entry_table :=
         journal_entry_table w @ [(db_journal_entry e d u a)\<lparr>journal_entry_id := Some (journal_entry_seq w)\<rparr>],
       journal_entry_seq := journal_entry_seq w + 1\<rparr>"
  by (simp add: insert_row_def db_journal_entry_def)

lemma analyze_empty:
  assumes "EntryCreateRequest.text d = []"
  shows "analyze_and_save_entry e d u s w =
           (Inl (HTTPException 400 (py ''Entry text cannot be empty.'')), s, w)"
  using assms by (simp add: analyze_and_save_entry_def)

lemma analyze_upstream:
  assumes "EntryCreateRequest.text d \<noteq> []"
    and "request_analysis e (prompt_invoke e (EntryCreateRequest.text d)) = Inl ex"
  shows "analyze_and_save_entry e d u s w =
           (Inl (HTTPException 500 (py ''Failed to get a structured response from the AI: '' @ str ex)),
            s, emit (LLMInvoke (prompt_invoke e (EntryCreateRequest.text d))) w)"
  using assms by (simp add: analyze_and_save_entry_def Let_def)

lemma analyze_commit_fault:
  assumes "EntryCreateRequest.text d \<noteq> []"
    and "request_analysis e (prompt_invoke e (EntryCreateRequest.text d)) = Inr a"
    and "commit_fault e = Some ex"
  shows "analyze_and_save_entry e d u s w =
           (Inl (HTTPException 500 (py ''Failed to save the entry to the database: '' @ str ex)),
            s\<lparr>new := []\<rparr>,
            emit SessionRollback (emit SessionCommit (emit SessionAdd
              (emit (LLMInvoke (prompt_invoke e (EntryCreateRequest.text d))) w))))"
  using assms
  by (simp add: analyze_and_save_entry_def Let_def session_add_def session_commit_def
      session_rollback_def)

lemma analyze_refresh_fault:
  assumes "EntryCreateRequest.text d \<noteq> []"
    and "request_analysis e (prompt_invoke e (EntryCreateRequest.text d)) = Inr a"
    and "commit_fault e = None" and "refresh_fault e = Some ex"
  shows "analyze_and_save_entry e d u s w =
           (Inl (HTTPException 500 (py ''Failed to save the entry to the database: '' @ str ex)),
            s\<lparr>new := []\<rparr>,
            emit SessionRollback (emit SessionRefresh
              (insert_row
                 (foldl insert_row
                    (emit SessionCommit (emit SessionAdd
                       (emit (LLMInvoke (prompt_invoke e (EntryCreateRequest.text d))) w)))
                    (new s))
                 (db_journal_entry e d u a))))"
  using assms
  by (simp add: analyze_and_save_entry_def Let_def session_add_def session_commit_def
      session_refresh_def session_rollback_def)

lemma analyze_ok:
  assumes "EntryCreateRequest.text d \<noteq> []"
    and "request_analysis e (prompt_invoke e (EntryCreateRequest.text d)) = Inr a"
    and "commit_fault e = None" and "refresh_fault e = None"
  shows "analyze_and_save_entry e d u s w =
           (Inr a, s\<lparr>new := []\<rparr>,
            emit SessionRefresh
              (insert_row
                 (foldl insert_row
                    (emit SessionCommit (emit SessionAdd
                       (emit (LLMInvoke (prompt_invoke e (EntryCreateRequest.text d))) w)))
                    (new s))
                 (db_journal_entry e d u a)))"
  using assms
  by (simp add: analyze_and_save_entry_def Let_def session_add_def session_commit_def
      session_refresh_def)

lemma analyze_success_cases:
  assumes "analyze_and_save_entry e d u s w = (Inr a, s', w')"
  shows "EntryCreateRequest.text d \<noteq> [] \<and>
         request_analysis e (prompt_invoke e (EntryCreateRequest.text d)) = Inr a \<and>
         commit_fault e = None \<and> refresh_fault e = None"
proof -
  have t: "EntryCreateRequest.text d \<noteq> []"
    using assms analyze_empty [of d e u s w] by auto
  obtain a' where a': "request_analysis e (prompt_invoke e (EntryCreateRequest.text d)) = Inr a'"
    using assms analyze_upstream [OF t, of e _ u s w]
    by (cases "request_analysis e (prompt_invoke e (EntryCreateRequest.text d))") auto
  have c: "commit_fault e = None"
    using assms analyze_commit_fault [OF t a', of _ u s w]
    by (cases "commit_fault e") auto
  have r: "refresh_fault e = None"
    using assms analyze_refresh_fault [OF t a' c, of _ u s w]
    by (cases "refresh_fault e") auto
  have "a' = a"
    using assms analyze_ok [OF t a' c r, of u s w] by simp
  with t a' c r show ?thesis by simp
qed

lemma session_close_simps:
  "user_table (session_close n w) = user_table w"
  "journal_entry_table (session_close n w) = journal_entry_table w"
  "journal_entry_seq (session_close n w) = journal_entry_seq w"
  "open_sessions (session_close n w) = removeAll n (open_sessions w)"
  "session_seq (session_close n w) = session_seq w"
  "trace (session_close n w) = trace w @ [SessionClose n]"
  by (simp_all add: session_close_def emit_def)

lemma get_session_eq:
  "get_session w request =
     (fst (request \<lparr>sid = session_seq w, new = []\<rparr>
             (emit (SessionOpen (session_seq w))
                (w\<lparr>session_seq := Suc (session_seq w),
                   open_sessions := session_seq w # open_sessions w\<rparr>))),
      session_close (session_seq w)
        (snd (snd (request \<lparr>sid = session_seq w, new = []\<rparr>
             (emit (SessionOpen (session_seq w))
                (w\<lparr>session_seq := Suc (session_seq w),
                   open_sessions := session_seq w # open_sessions w\<rparr>))))))"
  by (simp add: get_session_def opened_def Let_def split: prod.splits)

lemma get_current_user_None:
  "get_current_user None s w =
     (Inl (HTTPException 401 (py ''User ID must be provided in the 'X-User-Id' header.'')), w)"
  by (simp add: get_current_user_def)

lemma get_current_user_missing:
  assumes "find (\<lambda>u. User.user_id u = x) (user_table w) = None"
  shows "get_current_user (Some x) s w =
     (Inl (HTTPException 404 (py ''User with ID '' @ str_int x @ py '' not found.'')),
      emit (SessionGet x) w)"
  using assms by (simp add: get_current_user_def session_get_def)

lemma get_current_user_found:
  assumes "find (\<lambda>u. User.user_id u = x) (user_table w) = Some u"
  shows "get_current_user (Some x) s w = (Inr u, emit (SessionGet x) w)"
  using assms by (simp add: get_current_user_def session_get_def)

lemma find_user_None: "find (\<lambda>u. User.user_id u = x) us = None \<longleftrightarrow> x \<notin> User.user_id ` set us"
  by (auto simp: find_None_iff)

lemma find_user_Some:
  assumes "find (\<lambda>u. User.user_id u = x) us = Some u"
  shows "u \<in> set us \<and> User.user_id u = x"
  using assms by (auto simp: find_Some_iff)

lemma post_unauthenticated:
  "post_analyze_entry e w None b =
     (Inl (HTTPException 401 (py ''User ID must be provided in the 'X-User-Id' header.'')),
      session_close (session_seq w) (opened w))"
  by (simp add: post_analyze_entry_def get_session_eq get_current_user_None opened_def)

lemma post_not_found:
  assumes "find (\<lambda>u. User.user_id u = x) (user_table w) = None"
  shows "post_analyze_entry e w (Some x) b =
     (Inl (HTTPException 404 (py ''User with ID '' @ str_int x @ py '' not found.'')),
      session_close (session_seq w) (emit (SessionGet x) (opened w)))"
proof -
  have "find (\<lambda>u. User.user_id u = x) (user_table (opened w)) = None"
    using assms by (simp add: opened_def emit_simps)
  then show ?thesis
    by (simp add: post_analyze_entry_def get_session_eq get_current_user_missing
        opened_def [symmetric])
qed

lemma post_invalid:
  assumes "find (\<lambda>u. User.user_id u = x) (user_table w) = Some u"
    and "EntryCreateRequest_validate b = Inl err"
  shows "post_analyze_entry e w (Some x) b =
     (Inl err, session_close (session_seq w) (emit (SessionGet x) (opened w)))"
proof -
  have "find (\<lambda>u. User.user_id u = x) (user_table (opened w)) = Some u"
    using assms by (simp add: opened_def emit_simps)
  then show ?thesis
    using assms(2)
    by (simp add: post_analyze_entry_def get_session_eq get_current_user_found
        opened_def [symmetric])
qed

lemma post_handler:
  assumes "find (\<lambda>u. User.user_id u = x) (user_table w) = Some u"
    and "EntryCreateRequest_validate b = Inr d"
  shows "post_analyze_entry e w (Some x) b =
     (fst (analyze_and_save_entry e d u \<lparr>sid = session_seq w, new = []\<rparr>
             (emit (SessionGet x) (opened w))),
      session_close (session_seq w)
        (snd (snd (analyze_and_save_entry e d u \<lparr>sid = session_seq w, new = []\<rparr>
             (emit (SessionGet x) (opened w))))))"
proof -
  have "find (\<lambda>u. User.user_id u = x) (user_table (opened w)) = Some u"
    using assms by (simp add: opened_def emit_simps)
  then show ?thesis
    using assms(2)
    by (simp add: post_analyze_entry_def get_session_eq get_current_user_found
        opened_def [symmetric])
qed

lemma post_ok:
  assumes u: "find (\<lambda>u. User.user_id u = x) (user_table w) = Some u"
    and d: "EntryCreateRequest_validate b = Inr d"
    and t: "EntryCreateRequest.text d \<noteq> []"
    and a: "request_analysis e (prompt_invoke e (EntryCreateRequest.text d)) = Inr a"
    and c: "commit_fault e = None" and r: "refresh_fault e = None"
  shows "post_analyze_entry e w (Some x) b =
     (Inr a,
      session_close (session_seq w)
        (emit SessionRefresh
           (insert_row
              (emit SessionCommit (emit SessionAdd
                 (emit (LLMInvoke (prompt_invoke e (EntryCreateRequest.text d)))
                    (emit (SessionGet x) (opened w)))))
              (db_journal_entry e d u a))))"
  by (simp add: post_handler [OF u d] analyze_ok [OF t a c r])

lemma post_success:
  assumes "post_analyze_entry e w x b = (Inr a, w')"
  obtains uid u d where
    "x = Some uid"
    "find (\<lambda>u. User.user_id u = uid) (user_table w) = Some u"
    "EntryCreateRequest_validate b = Inr d"
    "EntryCreateRequest.text d \<noteq> []"
    "request_analysis e (prompt_invoke e (EntryCreateRequest.text d)) = Inr a"
    "commit_fault e = None" "refresh_fault e = None"
    "w' = session_close (session_seq w)
        (emit SessionRefresh
           (insert_row
              (emit SessionCommit (emit SessionAdd
                 (emit (LLMInvoke (prompt_invoke e (EntryCreateRequest.text d)))
                    (emit (SessionGet uid) (opened w)))))
              (db_journal_entry e d u a)))"
proof -
  obtain uid where x: "x = Some uid"
    using assms post_unauthenticated [of e w b] by (cases x) auto
  obtain u where u: "find (\<lambda>u. User.user_id u = uid) (user_table w) = Some u"
    using assms post_not_found [of uid w e b] x
    by (cases "find (\<lambda>u. User.user_id u = uid) (user_table w)") auto
  obtain d where d: "EntryCreateRequest_validate b = Inr d"
    using assms post_invalid [OF u, of b _ e] x
    by (cases "EntryCreateRequest_validate b") auto
  let ?call = "analyze_and_save_entry e d u \<lparr>sid = session_seq w, new = []\<rparr>
                 (emit (SessionGet uid) (opened w))"
  have "fst ?call = Inr a"
    using assms x by (simp add: post_handler [OF u d])
  then have call: "?call = (Inr a, fst (snd ?call), snd (snd ?call))"
    by (metis prod.collapse)
  note s = analyze_success_cases [OF call]
  have "w' = snd (post_analyze_entry e w (Some uid) b)"
    using assms x by simp
  also have "\<dots> = session_close (session_seq w)
        (emit SessionRefresh
           (insert_row
              (emit SessionCommit (emit SessionAdd
                 (emit (LLMInvoke (prompt_invoke e (EntryCreateRequest.text d)))
                    (emit (SessionGet uid) (opened w)))))
              (db_journal_entry e d u a)))"
    using s by (simp add: post_ok [OF u d])
  finally have w': "w' = session_close (session_seq w)
        (emit SessionRefresh
           (insert_row
              (emit SessionCommit (emit SessionAdd
                 (emit (LLMInvoke (prompt_invoke e (EntryCreateRequest.text d)))
                    (emit (SessionGet uid) (opened w)))))
              (db_journal_entry e d u a)))" .
  from s have s1: "EntryCreateRequest.text d \<noteq> []"
    and s2: "request_analysis e (prompt_invoke e (EntryCreateRequest.text d)) = Inr a"
    and s3: "commit_fault e = None" and s4: "refresh_fault e = None"
    by simp_all
  show ?thesis
    by (rule that [OF x u d s1 s2 s3 s4 w'])
qed

lemma opened_simps:
  "user_table (opened w) = user_table w"
  "journal_entry_table (opened w) = journal_entry_table w"
  "journal_entry_seq (opened w) = journal_entry_seq w"
  "open_sessions (opened w) = session_seq w # open_sessions w"
  "session_seq (opened w) = Suc (session_seq w)"
  "trace (opened w) = trace w @ [SessionOpen (session_seq w)]"
  by (simp_all add: opened_def emit_def)

lemma insert_row_new_simps:
  "user_table (insert_row w (db_journal_entry e d u a)) = user_table w"
  "journal_entry_table (insert_row w (db_journal_entry e d u a)) =
     journal_entry_table w @
       [(db_journal_entry e d u a)\<lparr>journal_entry_id := Some (journal_entry_seq w)\<rparr>]"
  "journal_entry_seq (insert_row w (db_journal_entry e d u a)) = journal_entry_seq w + 1"
  "open_sessions (insert_row w (db_journal_entry e d u a)) = open_sessions w"
  "session_seq (insert_row w (db_journal_entry e d u a)) = session_seq w"
  "trace (insert_row w (db_journal_entry e d u a)) = trace w"
  by (simp_all add: insert_row_db_journal_entry)

lemmas world_simps = emit_simps session_close_simps opened_simps insert_row_new_simps

lemma validate_text:
  assumes "EntryCreateRequest_validate b = Inr d"
  shows "body_text b = Some (EntryCreateRequest.text d)"
  using assms by (auto simp: EntryCreateRequest_validate_def split: option.splits)

section \<open>The concrete request\<close>

lemma find_user7: "find (\<lambda>u. User.user_id u = 7) (user_table world7) = Some user7"
  by (simp add: world7_def user7_def)

lemma validate_body_today: "EntryCreateRequest_validate body_today = Inr request_today"
  by (simp add: EntryCreateRequest_validate_def body_today_def request_today_def)

lemma text_request_today: "EntryCreateRequest.text request_today \<noteq> []"
  by (simp add: request_today_def py_def)

lemma split_today: "length (str_split (py ''Today was a good day.'')) = 5"
  by (simp add: str_split_Nil str_split_space str_split_token py_def isspace_def)

lemma post_today_ok:
  assumes "find (\<lambda>u. User.user_id u = 7) (user_table w) = Some u"
  shows "fst (post_analyze_entry env_ok w (Some 7) body_today) =
           Inr \<lparr>sentimentScore = 8, counsel = py ''Keep it up.''\<rparr>"
proof -
  have "request_analysis env_ok (prompt_invoke env_ok (EntryCreateRequest.text request_today)) =
          Inr \<lparr>sentimentScore = 8, counsel = py ''Keep it up.''\<rparr>"
    by (simp add: request_analysis_def env_ok_def)
  moreover have "commit_fault env_ok = None" "refresh_fault env_ok = None"
    by (simp_all add: env_ok_def)
  ultimately show ?thesis
    using post_ok [OF assms validate_body_today text_request_today] by simp
qed

section \<open>Empty text\<close>

text \<open>
  C4: a call of the Entry Handler with the empty text raises the HTTP 400 error "Entry
  text cannot be empty." whatever the collaborators, the user and the session are, and
  leaves the session and the world as they were: the model has not been invoked (the
  trace has no new event) and no row has been created.
\<close>

theorem empty_text_bad_request:
  assumes "EntryCreateRequest.text entry_data = []"
  shows "analyze_and_save_entry e entry_data current_user s w =
           (Inl (HTTPException 400 (py ''Entry text cannot be empty.'')), s, w)"
  using assms by (rule analyze_empty)

theorem empty_text_bad_request_witness:
  "EntryCreateRequest.text (request_today\<lparr>EntryCreateRequest.text := []\<rparr>) = [] \<and>
   analyze_and_save_entry env_ok (request_today\<lparr>EntryCreateRequest.text := []\<rparr>) user7 session0 world7 =
     (Inl (HTTPException 400 (py ''Entry text cannot be empty.'')), session0, world7)"
proof -
  have h: "EntryCreateRequest.text (request_today\<lparr>EntryCreateRequest.text := []\<rparr>) = []"
    by simp
  show ?thesis
    using h empty_text_bad_request [OF h, of env_ok user7 session0 world7] by simp
qed

section \<open>One row per successful call\<close>

text \<open>
  C1: a request with a non-empty text that succeeds has gone through the Entry Handler for
  the user the identity header names, and has appended exactly one row to
  \<open>journal_entry\<close>: the rows that were there are still there, in place, and the table of
  users is untouched. The new row carries the id of the authenticated user, and its
  \<open>word_count\<close> is the number of whitespace-separated tokens of the text (as the
  specification counts them, and as \<open>len(text.split())\<close> computes it). The same request
  sent again, if it succeeds, appends a second row, different from the first.
\<close>

theorem one_row_per_successful_call:
  assumes "body_text b = Some t" and "t \<noteq> []"
    and "post_analyze_entry e w x b = (Inr a, w')"
  shows "\<exists>uid current_user r.
           x = Some uid \<and> current_user \<in> set (user_table w) \<and> User.user_id current_user = uid \<and>
           journal_entry_table w' = journal_entry_table w @ [r] \<and>
           user_table w' = user_table w \<and>
           user_id r = User.user_id current_user \<and>
           word_count r = int (spec_token_count t) \<and>
           word_count r = int (length (str_split t)) \<and>
           (\<forall>e2 a2 w2. post_analyze_entry e2 w' x b = (Inr a2, w2) \<longrightarrow>
              (\<exists>r2. journal_entry_table w2 = journal_entry_table w @ [r, r2] \<and> r2 \<noteq> r \<and>
                    user_id r2 = user_id r \<and> text r2 = text r \<and> word_count r2 = word_count r))"
proof -
  from assms(3) obtain uid u d where
    x: "x = Some uid"
    and u: "find (\<lambda>u. User.user_id u = uid) (user_table w) = Some u"
    and d: "EntryCreateRequest_validate b = Inr d"
    and w': "w' = session_close (session_seq w)
        (emit SessionRefresh
           (insert_row
              (emit SessionCommit (emit SessionAdd
                 (emit (LLMInvoke (prompt_invoke e (EntryCreateRequest.text d)))
                    (emit (SessionGet uid) (opened w)))))
              (db_journal_entry e d u a)))"
    by (rule post_success)
  have td: "EntryCreateRequest.text d = t"
    using validate_text [OF d] assms(1) by simp
  let ?r = "(db_journal_entry e d u a)\<lparr>journal_entry_id := Some (journal_entry_seq w)\<rparr>"
  have tab: "journal_entry_table w' = journal_entry_table w @ [?r]"
    and seq: "journal_entry_seq w' = journal_entry_seq w + 1"
    and ut: "user_table w' = user_table w"
    by (simp_all add: w' world_simps)
  have second: "\<exists>r2. journal_entry_table w2 = journal_entry_table w @ [?r, r2] \<and> r2 \<noteq> ?r \<and>
                    user_id r2 = user_id ?r \<and> text r2 = text ?r \<and> word_count r2 = word_count ?r"
    if call2: "post_analyze_entry e2 w' x b = (Inr a2, w2)" for e2 a2 w2
  proof -
    from call2 obtain uid2 u2 d2 where
      x2: "x = Some uid2"
      and u2: "find (\<lambda>u. User.user_id u = uid2) (user_table w') = Some u2"
      and d2: "EntryCreateRequest_validate b = Inr d2"
      and w2: "w2 = session_close (session_seq w')
        (emit SessionRefresh
           (insert_row
              (emit SessionCommit (emit SessionAdd
                 (emit (LLMInvoke (prompt_invoke e2 (EntryCreateRequest.text d2)))
                    (emit (SessionGet uid2) (opened w')))))
              (db_journal_entry e2 d2 u2 a2)))"
      by (rule post_success)
    let ?r2 = "(db_journal_entry e2 d2 u2 a2)\<lparr>journal_entry_id := Some (journal_entry_seq w')\<rparr>"
    have "uid2 = uid" "d2 = d"
      using x x2 d d2 by simp_all
    moreover have "User.user_id u2 = uid2" "User.user_id u = uid"
      using find_user_Some [OF u2] find_user_Some [OF u] by simp_all
    moreover have "journal_entry_table w2 = journal_entry_table w @ [?r, ?r2]"
      by (simp add: w2 world_simps tab)
    moreover have "journal_entry_id ?r2 \<noteq> journal_entry_id ?r"
      by (simp add: seq)
    then have "?r2 \<noteq> ?r" by metis
    ultimately show ?thesis
      by (intro exI [of _ ?r2]) (simp add: db_journal_entry_def)
  qed
  have "u \<in> set (user_table w)" "User.user_id u = uid"
    using find_user_Some [OF u] by simp_all
  moreover have "user_id ?r = User.user_id u"
    by (simp add: db_journal_entry_def)
  moreover have "word_count ?r = int (length (str_split t))"
    by (simp add: db_journal_entry_def td)
  ultimately show ?thesis
    using x tab ut second by (auto simp: length_str_split simp del: )
qed

theorem one_row_per_successful_call_witness:
  "body_text body_today = Some (py ''Today was a good day.'') \<and>
   py ''Today was a good day.'' \<noteq> [] \<and>
   fst (post_analyze_entry env_ok world7 (Some 7) body_today) =
     Inr \<lparr>sentimentScore = 8, counsel = py ''Keep it up.''\<rparr> \<and>
   fst (post_analyze_entry env_ok
          (snd (post_analyze_entry env_ok world7 (Some 7) body_today)) (Some 7) body_today) =
     Inr \<lparr>sentimentScore = 8, counsel = py ''Keep it up.''\<rparr> \<and>
   (\<exists>r r2.
      journal_entry_table (snd (post_analyze_entry env_ok world7 (Some 7) body_today)) = [r] \<and>
      user_id r = 7 \<and> word_count r = 5 \<and>
      journal_entry_table
        (snd (post_analyze_entry env_ok
                (snd (post_analyze_entry env_ok world7 (Some 7) body_today)) (Some 7) body_today)) =
        [r, r2] \<and>
      r2 \<noteq> r)"
proof -
  let ?a = "\<lparr>sentimentScore = 8, counsel = py ''Keep it up.''\<rparr>"
  let ?w1 = "snd (post_analyze_entry env_ok world7 (Some 7) body_today)"
  let ?w2 = "snd (post_analyze_entry env_ok ?w1 (Some 7) body_today)"
  have h1: "body_text body_today = Some (py ''Today was a good day.'')"
    by (simp add: body_today_def)
  have h2: "py ''Today was a good day.'' \<noteq> []"
    by (simp add: py_def)
  have f1: "fst (post_analyze_entry env_ok world7 (Some 7) body_today) = Inr ?a"
    by (rule post_today_ok [OF find_user7])
  then have h3: "post_analyze_entry env_ok world7 (Some 7) body_today = (Inr ?a, ?w1)"
    by (metis prod.collapse)
  from one_row_per_successful_call [OF h1 h2 h3] obtain r where
    tab: "journal_entry_table ?w1 = journal_entry_table world7 @ [r]"
    and ut: "user_table ?w1 = user_table world7"
    and uid: "Some (7::int) = Some (user_id r)"
    and wc: "word_count r = int (length (str_split (py ''Today was a good day.'')))"
    and again: "\<forall>e2 a2 w2. post_analyze_entry e2 ?w1 (Some 7) body_today = (Inr a2, w2) \<longrightarrow>
              (\<exists>r2. journal_entry_table w2 = journal_entry_table world7 @ [r, r2] \<and> r2 \<noteq> r \<and>
                    user_id r2 = user_id r \<and> text r2 = text r \<and> word_count r2 = word_count r)"
    by auto
  have f2: "fst (post_analyze_entry env_ok ?w1 (Some 7) body_today) = Inr ?a"
    by (rule post_today_ok [of _ user7]) (simp add: ut find_user7)
  then have "post_analyze_entry env_ok ?w1 (Some 7) body_today = (Inr ?a, ?w2)"
    by (metis prod.collapse)
  with again obtain r2 where
    "journal_entry_table ?w2 = journal_entry_table world7 @ [r, r2]" "r2 \<noteq> r"
    by blast
  then show ?thesis
    using h1 h2 f1 f2 tab uid wc by (auto simp: split_today world7_def)
qed


section \<open>What a request leaves untouched\<close>

lemma insert_row_frame:
  "user_table (insert_row w obj) = user_table w"
  "open_sessions (insert_row w obj) = open_sessions w"
  "session_seq (insert_row w obj) = session_seq w"
  "trace (insert_row w obj) = trace w"
  by (simp_all add: insert_row_def split: option.splits)

lemma foldl_insert_row_frame:
  "user_table (foldl insert_row w objs) = user_table w"
  "open_sessions (foldl insert_row w objs) = open_sessions w"
  "session_seq (foldl insert_row w objs) = session_seq w"
  "trace (foldl insert_row w objs) = trace w"
  by (induction objs arbitrary: w) (simp_all add: insert_row_frame)

lemma analyze_frame:
  "open_sessions (snd (snd (analyze_and_save_entry e d u s w))) = open_sessions w \<and>
   session_seq (snd (snd (analyze_and_save_entry e d u s w))) = session_seq w \<and>
   user_table (snd (snd (analyze_and_save_entry e d u s w))) = user_table w \<and>
   (\<exists>tr. trace (snd (snd (analyze_and_save_entry e d u s w))) = trace w @ tr)"
proof (cases "EntryCreateRequest.text d = []")
  case True
  then show ?thesis by (simp add: analyze_empty)
next
  case t: False
  show ?thesis
  proof (cases "request_analysis e (prompt_invoke e (EntryCreateRequest.text d))")
    case (Inl ex)
    show ?thesis by (simp add: analyze_upstream [OF t Inl] emit_simps)
  next
    case (Inr a)
    show ?thesis
    proof (cases "commit_fault e")
      case (Some ex)
      show ?thesis by (simp add: analyze_commit_fault [OF t Inr Some] emit_simps)
    next
      case c: None
      show ?thesis
      proof (cases "refresh_fault e")
        case (Some ex)
        show ?thesis
          by (simp add: analyze_refresh_fault [OF t Inr c Some] emit_simps insert_row_frame
              foldl_insert_row_frame)
      next
        case None
        show ?thesis
          by (simp add: analyze_ok [OF t Inr c None] emit_simps insert_row_frame
              foldl_insert_row_frame)
      qed
    qed
  qed
qed

lemma post_frame:
  "open_sessions (snd (post_analyze_entry e w x b)) = removeAll (session_seq w) (open_sessions w) \<and>
   session_seq (snd (post_analyze_entry e w x b)) = Suc (session_seq w) \<and>
   user_table (snd (post_analyze_entry e w x b)) = user_table w \<and>
   (\<exists>tr. trace (snd (post_analyze_entry e w x b)) =
           trace w @ SessionOpen (session_seq w) # tr @ [SessionClose (session_seq w)])"
proof (cases x)
  case None
  then show ?thesis by (simp add: post_unauthenticated world_simps)
next
  case (Some uid)
  show ?thesis
  proof (cases "find (\<lambda>u. User.user_id u = uid) (user_table w)")
    case None
    show ?thesis by (simp add: Some post_not_found [OF None] world_simps)
  next
    case u: (Some u)
    show ?thesis
    proof (cases "EntryCreateRequest_validate b")
      case (Inl err)
      show ?thesis by (simp add: Some post_invalid [OF u Inl] world_simps)
    next
      case (Inr d)
      let ?w = "snd (snd (analyze_and_save_entry e d u \<lparr>sid = session_seq w, new = []\<rparr>
                  (emit (SessionGet uid) (opened w))))"
      from analyze_frame [of e d u "\<lparr>sid = session_seq w, new = []\<rparr>" "emit (SessionGet uid) (opened w)"]
      obtain tr where
        "open_sessions ?w = session_seq w # open_sessions w"
        "session_seq ?w = Suc (session_seq w)"
        "user_table ?w = user_table w"
        "trace ?w = trace w @ SessionOpen (session_seq w) # SessionGet uid # tr"
        by (auto simp: world_simps)
      then show ?thesis
        by (simp add: Some post_handler [OF u Inr] world_simps)
    qed
  qed
qed


section \<open>The session is closed on every exit\<close>

text \<open>
  C9: the Session Provider hands the request a new session (the next handle of the
  sequence, with nothing pending) and closes that session behind the request, whatever
  the request is and whatever comes back from it, a result or an error: the handle is
  not among the open sessions afterwards, and closing it is the last event. For
  \<open>POST /analyze-entry\<close> in particular, with every outcome (401, 404, 422, 400, both
  500s and success): the open sessions are afterwards the ones that were open before,
  without the handle of the request, the sequence has advanced by one, and the trace of
  the request starts with opening the session and ends with closing it.
\<close>

theorem session_closed_on_every_exit:
  "get_session w request =
     (fst (request \<lparr>sid = session_seq w, new = []\<rparr> (opened w)),
      session_close (session_seq w) (snd (snd (request \<lparr>sid = session_seq w, new = []\<rparr> (opened w))))) \<and>
   session_seq w \<notin> set (open_sessions (snd (get_session w request))) \<and>
   (\<exists>tr. trace (snd (get_session w request)) = tr @ [SessionClose (session_seq w)]) \<and>
   open_sessions (snd (post_analyze_entry e w x b)) = removeAll (session_seq w) (open_sessions w) \<and>
   session_seq (snd (post_analyze_entry e w x b)) = Suc (session_seq w) \<and>
   (\<exists>tr. trace (snd (post_analyze_entry e w x b)) =
           trace w @ SessionOpen (session_seq w) # tr @ [SessionClose (session_seq w)])"
proof -
  have "get_session w request =
     (fst (request \<lparr>sid = session_seq w, new = []\<rparr> (opened w)),
      session_close (session_seq w) (snd (snd (request \<lparr>sid = session_seq w, new = []\<rparr> (opened w)))))"
    by (simp add: get_session_eq opened_def)
  moreover from this have "session_seq w \<notin> set (open_sessions (snd (get_session w request)))"
    by (simp add: session_close_simps)
  moreover from calculation(1)
  have "\<exists>tr. trace (snd (get_session w request)) = tr @ [SessionClose (session_seq w)]"
    by (simp add: session_close_simps)
  ultimately show ?thesis
    using post_frame [of e w x b] by simp
qed

theorem session_closed_on_every_exit_witness:
  "open_sessions (snd (post_analyze_entry env_llm_down world7 (Some 7) body_today)) = [] \<and>
   session_seq (snd (post_analyze_entry env_llm_down world7 (Some 7) body_today)) = 1 \<and>
   (\<exists>tr. trace (snd (post_analyze_entry env_llm_down world7 (Some 7) body_today)) =
           SessionOpen 0 # tr @ [SessionClose 0]) \<and>
   open_sessions (snd (post_analyze_entry env_ok world7 None body_today)) = []"
  using session_closed_on_every_exit [of world7 "\<lambda>s w. ((), s, w)" env_llm_down "Some 7" body_today]
    session_closed_on_every_exit [of world7 "\<lambda>s w. ((), s, w)" env_ok None body_today]
  by (simp add: world7_def)


section \<open>Failure inside the second \<open>try\<close> block\<close>

text \<open>
  When the analysis has succeeded and \<open>session.commit()\<close> raises \<open>db_e\<close>, the handler
  rolls the session back and then raises one HTTP 500 error whose detail is "Failed to
  save the entry to the database: " followed by \<open>str(db_e)\<close>; the analysis is not
  returned. Afterwards \<open>journal_entry\<close> has the rows it had (nothing added, the sequence
  not advanced), nothing is pending in the session, and the rollback is the last event
  of the call, after the commit that failed.
\<close>

lemma commit_fault_rolls_back:
  assumes "EntryCreateRequest.text entry_data \<noteq> []"
    and "request_analysis e (prompt_invoke e (EntryCreateRequest.text entry_data)) = Inr a"
    and "commit_fault e = Some db_e"
  shows "\<exists>s' w'.
           analyze_and_save_entry e entry_data current_user s w =
             (Inl (HTTPException 500 (py ''Failed to save the entry to the database: '' @ str db_e)),
              s', w') \<and>
           journal_entry_table w' = journal_entry_table w \<and>
           journal_entry_seq w' = journal_entry_seq w \<and>
           user_table w' = user_table w \<and>
           new s' = [] \<and>
           trace w' = trace w @
             [LLMInvoke (prompt_invoke e (EntryCreateRequest.text entry_data)),
              SessionAdd, SessionCommit, SessionRollback]"
  by (simp add: analyze_commit_fault [OF assms] emit_simps)

lemma commit_fault_rolls_back_today:
  "EntryCreateRequest.text request_today \<noteq> [] \<and>
   request_analysis env_commit_fault
     (prompt_invoke env_commit_fault (EntryCreateRequest.text request_today)) =
     Inr \<lparr>sentimentScore = 8, counsel = py ''Keep it up.''\<rparr> \<and>
   commit_fault env_commit_fault = Some (PyException (py ''connection lost'')) \<and>
   (\<exists>s' w'.
      analyze_and_save_entry env_commit_fault request_today user7 session0 world7 =
        (Inl (HTTPException 500
                (py ''Failed to save the entry to the database: '' @ py ''connection lost'')),
         s', w') \<and>
      journal_entry_table w' = [] \<and> new s' = [])"
proof -
  have h2: "request_analysis env_commit_fault
     (prompt_invoke env_commit_fault (EntryCreateRequest.text request_today)) =
     Inr \<lparr>sentimentScore = 8, counsel = py ''Keep it up.''\<rparr>"
    by (simp add: request_analysis_def env_commit_fault_def env_ok_def)
  have h3: "commit_fault env_commit_fault = Some (PyException (py ''connection lost''))"
    by (simp add: env_commit_fault_def)
  show ?thesis
    using commit_fault_rolls_back [OF text_request_today h2 h3, of user7 session0 world7]
      text_request_today h2 h3
    by (auto simp: world7_def)
qed

text \<open>
  The same \<open>try\<close> block also holds \<open>session.refresh\<close>, which runs after the commit
  has succeeded. If it raises, the handler takes the same \<open>except\<close> branch and raises
  the same error, "Failed to save the entry to the database: ...", and the row is in the
  table by then: the rollback has nothing left to undo.
\<close>

lemma refresh_failure_keeps_row:
  assumes "EntryCreateRequest.text entry_data \<noteq> []"
    and "request_analysis e (prompt_invoke e (EntryCreateRequest.text entry_data)) = Inr a"
    and "commit_fault e = None" and "refresh_fault e = Some db_e"
    and "new s = []"
  shows "\<exists>s' w' r.
           analyze_and_save_entry e entry_data current_user s w =
             (Inl (HTTPException 500 (py ''Failed to save the entry to the database: '' @ str db_e)),
              s', w') \<and>
           journal_entry_table w' = journal_entry_table w @ [r] \<and>
           trace w' = trace w @
             [LLMInvoke (prompt_invoke e (EntryCreateRequest.text entry_data)),
              SessionAdd, SessionCommit, SessionRefresh, SessionRollback]"
  by (simp add: analyze_refresh_fault [OF assms(1-4)] assms(5) world_simps)

lemma post_refresh_fault:
  assumes u: "find (\<lambda>u. User.user_id u = x) (user_table w) = Some u"
    and d: "EntryCreateRequest_validate b = Inr d"
    and t: "EntryCreateRequest.text d \<noteq> []"
    and a: "request_analysis e (prompt_invoke e (EntryCreateRequest.text d)) = Inr a"
    and c: "commit_fault e = None" and r: "refresh_fault e = Some db_e"
  shows "post_analyze_entry e w (Some x) b =
     (Inl (HTTPException 500 (py ''Failed to save the entry to the database: '' @ str db_e)),
      session_close (session_seq w)
        (emit SessionRollback (emit SessionRefresh
           (insert_row
              (emit SessionCommit (emit SessionAdd
                 (emit (LLMInvoke (prompt_invoke e (EntryCreateRequest.text d)))
                    (emit (SessionGet x) (opened w)))))
              (db_journal_entry e d u a)))))"
  by (simp add: post_handler [OF u d] analyze_refresh_fault [OF t a c r])

text \<open>
  C2 (the code departs from it): user 7 submits "Today was a good day.", the analysis
  succeeds, the commit succeeds, and \<open>session.refresh\<close> raises "connection lost". The
  request ends with the persistence failure, HTTP 500 "Failed to save the entry to the
  database: connection lost", raised after a rollback, and the analysis is not
  returned; but \<open>journal_entry\<close>, empty before the request, holds the row of the entry
  afterwards. The row count has changed under an error that says the entry was not
  saved.
\<close>

theorem refresh_failure_reported_with_row_committed:
  "journal_entry_table world7 = [] \<and>
   fst (post_analyze_entry env_refresh_fault world7 (Some 7) body_today) =
     Inl (HTTPException 500 (py ''Failed to save the entry to the database: connection lost'')) \<and>
   journal_entry_table (snd (post_analyze_entry env_refresh_fault world7 (Some 7) body_today)) =
     [\<lparr>journal_entry_id = Some 1,
       user_id = 7,
       entry_date = Date 2025 6 1,
       text = Some (py ''Today was a good day.''),
       sentiment_score = Some 8,
       ai_suggestion = Some [(py ''counsel'', JStr (py ''Keep it up.''))],
       chat_log = None,
       entry_status = Some PUBLISHED,
       word_count = 5\<rparr>] \<and>
   trace (snd (post_analyze_entry env_refresh_fault world7 (Some 7) body_today)) =
     [SessionOpen 0, SessionGet 7,
      LLMInvoke (prompt_invoke env_refresh_fault (py ''Today was a good day.'')),
      SessionAdd, SessionCommit, SessionRefresh, SessionRollback, SessionClose 0]"
proof -
  let ?a = "\<lparr>sentimentScore = 8, counsel = py ''Keep it up.''\<rparr>"
  have a: "request_analysis env_refresh_fault
             (prompt_invoke env_refresh_fault (EntryCreateRequest.text request_today)) = Inr ?a"
    by (simp add: request_analysis_def env_refresh_fault_def env_ok_def)
  have c: "commit_fault env_refresh_fault = None"
    by (simp add: env_refresh_fault_def env_ok_def)
  have r: "refresh_fault env_refresh_fault = Some (PyException (py ''connection lost''))"
    by (simp add: env_refresh_fault_def)
  note call = post_refresh_fault [OF find_user7 validate_body_today text_request_today a c r]
  have before: "journal_entry_table world7 = []"
    by (simp add: world7_def)
  have err: "fst (post_analyze_entry env_refresh_fault world7 (Some 7) body_today) =
     Inl (HTTPException 500 (py ''Failed to save the entry to the database: connection lost''))"
    by (simp add: call py_def)
  have row: "db_journal_entry env_refresh_fault request_today user7 ?a
               \<lparr>journal_entry_id := Some 1\<rparr> =
     \<lparr>journal_entry_id = Some 1,
       user_id = 7,
       entry_date = Date 2025 6 1,
       text = Some (py ''Today was a good day.''),
       sentiment_score = Some 8,
       ai_suggestion = Some [(py ''counsel'', JStr (py ''Keep it up.''))],
       chat_log = None,
       entry_status = Some PUBLISHED,
       word_count = 5\<rparr>"
    by (simp add: db_journal_entry_def request_today_def user7_def env_refresh_fault_def
        env_ok_def split_today)
  have seq: "journal_entry_seq world7 = 1" "session_seq world7 = 0" "trace world7 = []"
    by (simp_all add: world7_def)
  have tab: "journal_entry_table (snd (post_analyze_entry env_refresh_fault world7 (Some 7) body_today)) =
     [db_journal_entry env_refresh_fault request_today user7 ?a\<lparr>journal_entry_id := Some 1\<rparr>]"
    by (simp add: call world_simps before seq)
  have tr: "trace (snd (post_analyze_entry env_refresh_fault world7 (Some 7) body_today)) =
     [SessionOpen 0, SessionGet 7,
      LLMInvoke (prompt_invoke env_refresh_fault (py ''Today was a good day.'')),
      SessionAdd, SessionCommit, SessionRefresh, SessionRollback, SessionClose 0]"
    by (simp add: call world_simps seq request_today_def)
  show ?thesis
    using before err tab tr by (simp only: row simp_thms)
qed

section \<open>Failure of the analysis\<close>

text \<open>
  C3: when the text is not empty and the analysis step fails with \<open>ex\<close> (\<open>llm.invoke\<close>
  raises it, or the model answers and \<open>parser.parse\<close> raises it on the answer), the
  handler raises one HTTP 500 error whose detail is "Failed to get a structured response
  from the AI: " followed by \<open>str(ex)\<close>. The model has been invoked exactly once (no
  retry), the session has not been touched, and \<open>journal_entry\<close> has no new row.
\<close>

theorem upstream_failure_no_rows:
  assumes "EntryCreateRequest.text entry_data \<noteq> []"
    and "llm_invoke e (prompt_invoke e (EntryCreateRequest.text entry_data)) = Inl ex \<or>
         (\<exists>content. llm_invoke e (prompt_invoke e (EntryCreateRequest.text entry_data)) = Inr content \<and>
                    parser_parse e content = Inl ex)"
  shows "\<exists>w'.
           analyze_and_save_entry e entry_data current_user s w =
             (Inl (HTTPException 500
                     (py ''Failed to get a structured response from the AI: '' @ str ex)), s, w') \<and>
           journal_entry_table w' = journal_entry_table w \<and>
           journal_entry_seq w' = journal_entry_seq w \<and>
           trace w' = trace w @ [LLMInvoke (prompt_invoke e (EntryCreateRequest.text entry_data))]"
proof -
  have "request_analysis e (prompt_invoke e (EntryCreateRequest.text entry_data)) = Inl ex"
    using assms(2) by (auto simp: request_analysis_def)
  then show ?thesis
    by (simp add: analyze_upstream [OF assms(1)] emit_simps)
qed

theorem upstream_failure_no_rows_witness:
  "EntryCreateRequest.text request_today \<noteq> [] \<and>
   llm_invoke env_llm_down (prompt_invoke env_llm_down (EntryCreateRequest.text request_today)) =
     Inl (PyException (py ''timeout'')) \<and>
   (\<exists>w'. analyze_and_save_entry env_llm_down request_today user7 session0 world7 =
           (Inl (HTTPException 500
                   (py ''Failed to get a structured response from the AI: '' @ py ''timeout'')),
            session0, w') \<and>
         journal_entry_table w' = []) \<and>
   llm_invoke env_bad_output (prompt_invoke env_bad_output (EntryCreateRequest.text request_today)) =
     Inr (py ''{}'') \<and>
   parser_parse env_bad_output (py ''{}'') = Inl (PyException (py ''Invalid json output'')) \<and>
   (\<exists>w'. analyze_and_save_entry env_bad_output request_today user7 session0 world7 =
           (Inl (HTTPException 500
                   (py ''Failed to get a structured response from the AI: '' @ py ''Invalid json output'')),
            session0, w') \<and>
         journal_entry_table w' = [])"
proof -
  have d: "llm_invoke env_llm_down (prompt_invoke env_llm_down (EntryCreateRequest.text request_today)) =
     Inl (PyException (py ''timeout''))"
    by (simp add: env_llm_down_def)
  have b1: "llm_invoke env_bad_output (prompt_invoke env_bad_output (EntryCreateRequest.text request_today)) =
     Inr (py ''{}'')"
    by (simp add: env_bad_output_def env_ok_def)
  have b2: "parser_parse env_bad_output (py ''{}'') = Inl (PyException (py ''Invalid json output''))"
    by (simp add: env_bad_output_def)
  have b: "llm_invoke env_bad_output (prompt_invoke env_bad_output (EntryCreateRequest.text request_today)) =
             Inl (PyException (py ''Invalid json output'')) \<or>
           (\<exists>content. llm_invoke env_bad_output
                        (prompt_invoke env_bad_output (EntryCreateRequest.text request_today)) = Inr content \<and>
                      parser_parse env_bad_output content = Inl (PyException (py ''Invalid json output'')))"
    using b1 b2 by simp
  show ?thesis
    using upstream_failure_no_rows [OF text_request_today disjI1 [OF d], of user7 session0 world7]
      upstream_failure_no_rows [OF text_request_today b, of user7 session0 world7]
      text_request_today d b1 b2
    by (auto simp: world7_def)
qed

section \<open>The Authenticator\<close>

lemma get_current_user_frame:
  "user_table (snd (get_current_user x_user_id s w)) = user_table w \<and>
   journal_entry_table (snd (get_current_user x_user_id s w)) = journal_entry_table w \<and>
   journal_entry_seq (snd (get_current_user x_user_id s w)) = journal_entry_seq w"
  by (simp add: get_current_user_def session_get_def emit_simps split: option.splits)


text \<open>
  C5: without an identity value \<open>get_current_user\<close> raises HTTP 401 and leaves the world
  as it was, so no record has been looked up. With an identity that is the key of no row
  of \<open>user\<close> it raises HTTP 404, the request ends with that error, and \<open>journal_entry\<close>
  has no new row. With an identity that is the key of a row it returns a row of \<open>user\<close>
  with that key. In every case the tables are afterwards what they were before: the
  Authenticator writes nothing.
\<close>

theorem authenticator_outcomes:
  "get_current_user None s w =
     (Inl (HTTPException 401 (py ''User ID must be provided in the 'X-User-Id' header.'')), w) \<and>
   (x \<notin> User.user_id ` set (user_table w) \<longrightarrow>
      fst (get_current_user (Some x) s w) =
        Inl (HTTPException 404 (py ''User with ID '' @ str_int x @ py '' not found.'')) \<and>
      fst (post_analyze_entry e w (Some x) b) =
        Inl (HTTPException 404 (py ''User with ID '' @ str_int x @ py '' not found.'')) \<and>
      journal_entry_table (snd (post_analyze_entry e w (Some x) b)) = journal_entry_table w) \<and>
   (x \<in> User.user_id ` set (user_table w) \<longrightarrow>
      (\<exists>user. user \<in> set (user_table w) \<and> User.user_id user = x \<and>
              fst (get_current_user (Some x) s w) = Inr user)) \<and>
   user_table (snd (get_current_user x_user_id s w)) = user_table w \<and>
   journal_entry_table (snd (get_current_user x_user_id s w)) = journal_entry_table w \<and>
   journal_entry_seq (snd (get_current_user x_user_id s w)) = journal_entry_seq w"
proof -
  have missing: "fst (get_current_user (Some x) s w) =
        Inl (HTTPException 404 (py ''User with ID '' @ str_int x @ py '' not found.'')) \<and>
      fst (post_analyze_entry e w (Some x) b) =
        Inl (HTTPException 404 (py ''User with ID '' @ str_int x @ py '' not found.'')) \<and>
      journal_entry_table (snd (post_analyze_entry e w (Some x) b)) = journal_entry_table w"
    if "x \<notin> User.user_id ` set (user_table w)"
  proof -
    have n: "find (\<lambda>u. User.user_id u = x) (user_table w) = None"
      using that find_user_None [of x "user_table w"] by blast
    show ?thesis
      by (simp add: get_current_user_missing [OF n] post_not_found [OF n] world_simps)
  qed
  have found: "\<exists>user. user \<in> set (user_table w) \<and> User.user_id user = x \<and>
              fst (get_current_user (Some x) s w) = Inr user"
    if "x \<in> User.user_id ` set (user_table w)"
  proof -
    from that obtain u where u: "find (\<lambda>u. User.user_id u = x) (user_table w) = Some u"
      using find_user_None [of x "user_table w"] by (cases "find (\<lambda>u. User.user_id u = x) (user_table w)") auto
    show ?thesis
      using find_user_Some [OF u] by (auto simp: get_current_user_found [OF u])
  qed
  show ?thesis
    using missing found get_current_user_frame [of x_user_id s w]
    by (simp add: get_current_user_None)
qed

theorem authenticator_outcomes_witness:
  "(999::int) \<notin> User.user_id ` set (user_table world7) \<and>
   fst (post_analyze_entry env_ok world7 (Some 999) body_today) =
     Inl (HTTPException 404 (py ''User with ID 999 not found.'')) \<and>
   journal_entry_table (snd (post_analyze_entry env_ok world7 (Some 999) body_today)) = [] \<and>
   (7::int) \<in> User.user_id ` set (user_table world7) \<and>
   fst (get_current_user (Some 7) session0 world7) = Inr user7 \<and>
   fst (get_current_user None session0 world7) =
     Inl (HTTPException 401 (py ''User ID must be provided in the 'X-User-Id' header.''))"
proof -
  have n: "(999::int) \<notin> User.user_id ` set (user_table world7)"
    by (simp add: world7_def user7_def)
  have y: "(7::int) \<in> User.user_id ` set (user_table world7)"
    by (simp add: world7_def user7_def)
  have str: "str_int 999 = py ''999''"
    by (simp add: str_int_def str_nat.simps py_def)
  from authenticator_outcomes [of session0 world7 999 env_ok body_today None] n
  have "fst (post_analyze_entry env_ok world7 (Some 999) body_today) =
          Inl (HTTPException 404 (py ''User with ID '' @ str_int 999 @ py '' not found.''))"
    and "journal_entry_table (snd (post_analyze_entry env_ok world7 (Some 999) body_today)) = []"
    and "fst (get_current_user None session0 world7) =
     Inl (HTTPException 401 (py ''User ID must be provided in the 'X-User-Id' header.''))"
    by (simp_all add: world7_def)
  moreover from authenticator_outcomes [of session0 world7 7 env_ok body_today None] y
  have "fst (get_current_user (Some 7) session0 world7) = Inr user7"
    by (auto simp: world7_def)
  ultimately show ?thesis
    using n y by (simp add: str py_def)
qed

section \<open>The row the handler builds\<close>

lemma analyze_success_world:
  assumes "analyze_and_save_entry e d u s w = (Inr a, s', w')"
  shows "w' = emit SessionRefresh
              (insert_row
                 (foldl insert_row
                    (emit SessionCommit (emit SessionAdd
                       (emit (LLMInvoke (prompt_invoke e (EntryCreateRequest.text d))) w)))
                    (new s))
                 (db_journal_entry e d u a))"
proof -
  from analyze_success_cases [OF assms]
  have t: "EntryCreateRequest.text d \<noteq> []"
    and a: "request_analysis e (prompt_invoke e (EntryCreateRequest.text d)) = Inr a"
    and c: "commit_fault e = None" and r: "refresh_fault e = None"
    by simp_all
  show ?thesis
    using assms by (simp add: analyze_ok [OF t a c r])
qed


text \<open>
  C6: after a successful call of the handler the last row of \<open>journal_entry\<close> is the one
  the handler built (and the only new one when the session had nothing else pending, as
  in a request): its \<open>user_id\<close> is the current user's, its \<open>entry_date\<close> is today's
  date, its \<open>text\<close> the text of the request, its \<open>sentiment_score\<close> the
  \<open>sentimentScore\<close> of the parsed analysis that the call returns, its \<open>entry_status\<close>
  the status of the request, and its \<open>ai_suggestion\<close> the dictionary with the one key
  "counsel", bound to the counsel of the parsed analysis.
\<close>

theorem constructed_row_fields:
  assumes "analyze_and_save_entry e entry_data current_user s w = (Inr analysis_result, s', w')"
  shows "\<exists>rows r.
           journal_entry_table w' = rows @ [r] \<and>
           (new s = [] \<longrightarrow> rows = journal_entry_table w) \<and>
           request_analysis e (prompt_invoke e (EntryCreateRequest.text entry_data)) =
             Inr analysis_result \<and>
           user_id r = User.user_id current_user \<and>
           entry_date r = today e \<and>
           text r = Some (EntryCreateRequest.text entry_data) \<and>
           sentiment_score r = Some (sentimentScore analysis_result) \<and>
           entry_status r = Some (EntryCreateRequest.entry_status entry_data) \<and>
           ai_suggestion r = Some [(py ''counsel'', JStr (counsel analysis_result))]"
proof -
  let ?W = "foldl insert_row
              (emit SessionCommit (emit SessionAdd
                 (emit (LLMInvoke (prompt_invoke e (EntryCreateRequest.text entry_data))) w)))
              (new s)"
  let ?r = "(db_journal_entry e entry_data current_user analysis_result)
              \<lparr>journal_entry_id := Some (journal_entry_seq ?W)\<rparr>"
  have "journal_entry_table w' = journal_entry_table ?W @ [?r]"
    by (simp add: analyze_success_world [OF assms] world_simps)
  moreover have "new s = [] \<longrightarrow> journal_entry_table ?W = journal_entry_table w"
    by (simp add: world_simps)
  moreover have "request_analysis e (prompt_invoke e (EntryCreateRequest.text entry_data)) =
                   Inr analysis_result"
    using analyze_success_cases [OF assms] by simp
  ultimately show ?thesis
    by (intro exI [of _ "journal_entry_table ?W"] exI [of _ ?r])
      (simp add: db_journal_entry_def)
qed

lemma analyze_today_ok:
  "analyze_and_save_entry env_ok request_today user7 session0 world7 =
     (Inr \<lparr>sentimentScore = 8, counsel = py ''Keep it up.''\<rparr>,
      fst (snd (analyze_and_save_entry env_ok request_today user7 session0 world7)),
      snd (snd (analyze_and_save_entry env_ok request_today user7 session0 world7)))"
proof -
  have "request_analysis env_ok (prompt_invoke env_ok (EntryCreateRequest.text request_today)) =
          Inr \<lparr>sentimentScore = 8, counsel = py ''Keep it up.''\<rparr>"
    by (simp add: request_analysis_def env_ok_def)
  moreover have "commit_fault env_ok = None" "refresh_fault env_ok = None"
    by (simp_all add: env_ok_def)
  ultimately show ?thesis
    by (simp add: analyze_ok [OF text_request_today])
qed

theorem constructed_row_fields_witness:
  "fst (analyze_and_save_entry env_ok request_today user7 session0 world7) =
     Inr \<lparr>sentimentScore = 8, counsel = py ''Keep it up.''\<rparr> \<and>
   new session0 = [] \<and>
   (\<exists>r. journal_entry_table
            (snd (snd (analyze_and_save_entry env_ok request_today user7 session0 world7))) = [r] \<and>
         user_id r = 7 \<and>
         entry_date r = Date 2025 6 1 \<and>
         text r = Some (py ''Today was a good day.'') \<and>
         sentiment_score r = Some 8 \<and>
         entry_status r = Some PUBLISHED \<and>
         ai_suggestion r = Some [(py ''counsel'', JStr (py ''Keep it up.''))])"
proof -
  have n: "new session0 = []"
    by (simp add: session0_def)
  from constructed_row_fields [OF analyze_today_ok] n obtain r where
    "journal_entry_table
       (snd (snd (analyze_and_save_entry env_ok request_today user7 session0 world7))) =
       journal_entry_table world7 @ [r]"
    "user_id r = User.user_id user7"
    "entry_date r = today env_ok"
    "text r = Some (EntryCreateRequest.text request_today)"
    "sentiment_score r = Some (sentimentScore \<lparr>sentimentScore = 8, counsel = py ''Keep it up.''\<rparr>)"
    "entry_status r = Some (EntryCreateRequest.entry_status request_today)"
    "ai_suggestion r =
       Some [(py ''counsel'', JStr (counsel \<lparr>sentimentScore = 8, counsel = py ''Keep it up.''\<rparr>))]"
    by auto
  then have "journal_entry_table
       (snd (snd (analyze_and_save_entry env_ok request_today user7 session0 world7))) = [r] \<and>
     user_id r = 7 \<and>
     entry_date r = Date 2025 6 1 \<and>
     text r = Some (py ''Today was a good day.'') \<and>
     sentiment_score r = Some 8 \<and>
     entry_status r = Some PUBLISHED \<and>
     ai_suggestion r = Some [(py ''counsel'', JStr (py ''Keep it up.''))]"
    by (simp add: world7_def user7_def env_ok_def request_today_def)
  moreover have "fst (analyze_and_save_entry env_ok request_today user7 session0 world7) =
     Inr \<lparr>sentimentScore = 8, counsel = py ''Keep it up.''\<rparr>"
    using analyze_today_ok by (metis fst_conv)
  ultimately show ?thesis
    using n by blast
qed


section \<open>Text of whitespace only\<close>




section \<open>The scenario "Today was a good day."\<close>

text \<open>
  C7 as stated fails: user 7 exists and submits "Today was a good day."; the model's
  answer parses to the score 42 and an empty counsel, the call succeeds and returns just
  that, a score outside of -10 to 10 and an empty counsel.
\<close>

theorem scenario_today_unbounded_counterexample:
  "fst (post_analyze_entry env_unbounded world7 (Some 7) body_today) =
     Inr \<lparr>sentimentScore = 42, counsel = []\<rparr> \<and>
   \<not> spec_analysis_guarantee \<lparr>sentimentScore = 42, counsel = []\<rparr>"
proof -
  have "request_analysis env_unbounded
          (prompt_invoke env_unbounded (EntryCreateRequest.text request_today)) =
          Inr \<lparr>sentimentScore = 42, counsel = []\<rparr>"
    by (simp add: request_analysis_def env_unbounded_def env_ok_def)
  moreover have "commit_fault env_unbounded = None" "refresh_fault env_unbounded = None"
    by (simp_all add: env_unbounded_def env_ok_def)
  ultimately have "fst (post_analyze_entry env_unbounded world7 (Some 7) body_today) =
     Inr \<lparr>sentimentScore = 42, counsel = []\<rparr>"
    using post_ok [OF find_user7 validate_body_today text_request_today] by simp
  then show ?thesis
    by (simp add: spec_analysis_guarantee_def)
qed

text \<open>
  C7, amended: when user 7 submits "Today was a good day." without a status and the call
  succeeds, the response is the analysis as parsed from the model's answer, whatever its
  score and counsel are, and \<open>journal_entry\<close> has exactly one new row, with
  \<open>user_id = 7\<close>, \<open>word_count = 5\<close>, \<open>entry_status = PUBLISHED\<close> and the score and
  counsel of that analysis.
\<close>

theorem scenario_today_row:
  assumes "post_analyze_entry e w (Some 7) body_today = (Inr a, w')"
  shows "request_analysis e (prompt_invoke e (py ''Today was a good day.'')) = Inr a \<and>
         (\<exists>r. journal_entry_table w' = journal_entry_table w @ [r] \<and>
               user_id r = 7 \<and>
               word_count r = 5 \<and>
               entry_status r = Some PUBLISHED \<and>
               sentiment_score r = Some (sentimentScore a) \<and>
               ai_suggestion r = Some [(py ''counsel'', JStr (counsel a))])"
proof -
  from assms obtain uid u d where
    x: "Some (7::int) = Some uid"
    and u: "find (\<lambda>u. User.user_id u = uid) (user_table w) = Some u"
    and d: "EntryCreateRequest_validate body_today = Inr d"
    and a: "request_analysis e (prompt_invoke e (EntryCreateRequest.text d)) = Inr a"
    and w': "w' = session_close (session_seq w)
        (emit SessionRefresh
           (insert_row
              (emit SessionCommit (emit SessionAdd
                 (emit (LLMInvoke (prompt_invoke e (EntryCreateRequest.text d)))
                    (emit (SessionGet uid) (opened w)))))
              (db_journal_entry e d u a)))"
    by (rule post_success)
  have d': "d = request_today"
    using d validate_body_today by simp
  have uid: "User.user_id u = 7"
    using find_user_Some [OF u] x by simp
  let ?r = "(db_journal_entry e d u a)\<lparr>journal_entry_id := Some (journal_entry_seq w)\<rparr>"
  have "journal_entry_table w' = journal_entry_table w @ [?r]"
    by (simp add: w' world_simps)
  moreover have "word_count ?r = 5"
    by (simp add: db_journal_entry_def d' request_today_def split_today)
  moreover have "user_id ?r = 7" "entry_status ?r = Some PUBLISHED"
    "sentiment_score ?r = Some (sentimentScore a)"
    "ai_suggestion ?r = Some [(py ''counsel'', JStr (counsel a))]"
    by (simp_all add: db_journal_entry_def d' request_today_def uid)
  moreover have "request_analysis e (prompt_invoke e (py ''Today was a good day.'')) = Inr a"
    using a by (simp add: d' request_today_def)
  ultimately show ?thesis by blast
qed

theorem scenario_today_row_witness:
  "fst (post_analyze_entry env_ok world7 (Some 7) body_today) =
     Inr \<lparr>sentimentScore = 8, counsel = py ''Keep it up.''\<rparr> \<and>
   (\<exists>r. journal_entry_table (snd (post_analyze_entry env_ok world7 (Some 7) body_today)) = [r] \<and>
         user_id r = 7 \<and> word_count r = 5 \<and> entry_status r = Some PUBLISHED \<and>
         sentiment_score r = Some 8 \<and>
         ai_suggestion r = Some [(py ''counsel'', JStr (py ''Keep it up.''))])"
proof -
  let ?a = "\<lparr>sentimentScore = 8, counsel = py ''Keep it up.''\<rparr>"
  let ?w1 = "snd (post_analyze_entry env_ok world7 (Some 7) body_today)"
  have f: "fst (post_analyze_entry env_ok world7 (Some 7) body_today) = Inr ?a"
    by (rule post_today_ok [OF find_user7])
  then have h: "post_analyze_entry env_ok world7 (Some 7) body_today = (Inr ?a, ?w1)"
    by (metis prod.collapse)
  from scenario_today_row [OF h] obtain r where
    "journal_entry_table ?w1 = journal_entry_table world7 @ [r]"
    "user_id r = 7" "word_count r = 5" "entry_status r = Some PUBLISHED"
    "sentiment_score r = Some (sentimentScore ?a)"
    "ai_suggestion r = Some [(py ''counsel'', JStr (counsel ?a))]"
    by blast
  then have "journal_entry_table ?w1 = [r] \<and>
         user_id r = 7 \<and> word_count r = 5 \<and> entry_status r = Some PUBLISHED \<and>
         sentiment_score r = Some 8 \<and>
         ai_suggestion r = Some [(py ''counsel'', JStr (py ''Keep it up.''))]"
    by (simp add: world7_def)
  with f show ?thesis by blast
qed


section \<open>The status of a request\<close>

lemma EntryStatus_of_value_Some:
  "EntryStatus_of_value v = Some st \<longleftrightarrow> v = EntryStatus_value st"
  by (cases st) (auto simp: EntryStatus_of_value_def py_def)

lemma EntryStatus_of_value_None:
  "EntryStatus_of_value v = None \<longleftrightarrow> v \<notin> {py ''draft'', py ''published'', py ''archived''}"
  by (auto simp: EntryStatus_of_value_def py_def)

text \<open>
  C8: a body without \<open>entry_status\<close> is accepted, with the status \<open>PUBLISHED\<close>. A body
  with \<open>entry_status\<close> is accepted with a given status exactly when the value sent is the
  value of that member of \<open>EntryStatus\<close>; a value other than "draft", "published" and
  "archived" is rejected. So the status of every accepted request is one of \<open>DRAFT\<close>,
  \<open>PUBLISHED\<close>, \<open>ARCHIVED\<close>: the default when none was sent, the member whose value was
  sent otherwise.
\<close>

theorem entry_status_default_and_values:
  "(body_text b = Some t \<and> body_entry_status b = None \<longrightarrow>
      EntryCreateRequest_validate b =
        Inr \<lparr>EntryCreateRequest.text = t, EntryCreateRequest.entry_status = PUBLISHED\<rparr>) \<and>
   (body_text b = Some t \<and> body_entry_status b = Some v \<longrightarrow>
      (EntryCreateRequest_validate b =
         Inr \<lparr>EntryCreateRequest.text = t, EntryCreateRequest.entry_status = st\<rparr>) =
      (v = EntryStatus_value st)) \<and>
   (body_entry_status b = Some v \<and> v \<notin> {py ''draft'', py ''published'', py ''archived''} \<longrightarrow>
      EntryCreateRequest_validate b = Inl RequestValidationError) \<and>
   (EntryCreateRequest_validate b = Inr entry_data \<longrightarrow>
      EntryCreateRequest.entry_status entry_data \<in> {DRAFT, PUBLISHED, ARCHIVED} \<and>
      (body_entry_status b = None \<longrightarrow> EntryCreateRequest.entry_status entry_data = PUBLISHED) \<and>
      (body_entry_status b \<noteq> None \<longrightarrow>
         body_entry_status b = Some (EntryStatus_value (EntryCreateRequest.entry_status entry_data))))"
proof -
  have 1: "EntryCreateRequest_validate b =
        Inr \<lparr>EntryCreateRequest.text = t, EntryCreateRequest.entry_status = PUBLISHED\<rparr>"
    if "body_text b = Some t" "body_entry_status b = None"
    using that by (simp add: EntryCreateRequest_validate_def)
  have 2: "(EntryCreateRequest_validate b =
         Inr \<lparr>EntryCreateRequest.text = t, EntryCreateRequest.entry_status = st\<rparr>) =
      (v = EntryStatus_value st)"
    if "body_text b = Some t" "body_entry_status b = Some v"
    using that EntryStatus_of_value_Some [of v st]
    by (cases "EntryStatus_of_value v") (auto simp: EntryCreateRequest_validate_def)
  have 3: "EntryCreateRequest_validate b = Inl RequestValidationError"
    if "body_entry_status b = Some v" "v \<notin> {py ''draft'', py ''published'', py ''archived''}"
    using that EntryStatus_of_value_None [of v]
    by (simp add: EntryCreateRequest_validate_def split: option.splits)
  have 4: "EntryCreateRequest.entry_status entry_data \<in> {DRAFT, PUBLISHED, ARCHIVED} \<and>
      (body_entry_status b = None \<longrightarrow> EntryCreateRequest.entry_status entry_data = PUBLISHED) \<and>
      (body_entry_status b \<noteq> None \<longrightarrow>
         body_entry_status b = Some (EntryStatus_value (EntryCreateRequest.entry_status entry_data)))"
    if "EntryCreateRequest_validate b = Inr entry_data"
  proof -
    have "EntryCreateRequest.entry_status entry_data \<in> {DRAFT, PUBLISHED, ARCHIVED}"
      by (cases "EntryCreateRequest.entry_status entry_data") simp_all
    moreover have "body_entry_status b = None \<longrightarrow> EntryCreateRequest.entry_status entry_data = PUBLISHED"
      using that by (auto simp: EntryCreateRequest_validate_def split: option.splits)
    moreover have "body_entry_status b \<noteq> None \<longrightarrow>
         body_entry_status b = Some (EntryStatus_value (EntryCreateRequest.entry_status entry_data))"
      using that
      by (auto simp: EntryCreateRequest_validate_def EntryStatus_of_value_Some split: option.splits)
    ultimately show ?thesis by blast
  qed
  from 1 2 3 4 show ?thesis by blast
qed

theorem entry_status_default_and_values_witness:
  "body_text body_today = Some (py ''Today was a good day.'') \<and>
   body_entry_status body_today = None \<and>
   EntryCreateRequest_validate body_today = Inr request_today \<and>
   EntryCreateRequest.entry_status request_today = PUBLISHED \<and>
   body_text body_blank = Some (py '' '') \<and>
   body_entry_status body_blank = Some (py ''draft'') \<and>
   EntryCreateRequest_validate body_blank =
     Inr \<lparr>EntryCreateRequest.text = py '' '', EntryCreateRequest.entry_status = DRAFT\<rparr> \<and>
   py ''deleted'' \<notin> {py ''draft'', py ''published'', py ''archived''} \<and>
   EntryCreateRequest_validate (body_blank\<lparr>body_entry_status := Some (py ''deleted'')\<rparr>) =
     Inl RequestValidationError"
proof -
  note T = entry_status_default_and_values
  have t1: "body_text body_today = Some (py ''Today was a good day.'')"
    and s1: "body_entry_status body_today = None"
    by (simp_all add: body_today_def)
  have t2: "body_text body_blank = Some (py '' '')"
    and s2: "body_entry_status body_blank = Some (py ''draft'')"
    by (simp_all add: body_blank_def)
  have s3: "body_entry_status (body_blank\<lparr>body_entry_status := Some (py ''deleted'')\<rparr>) =
              Some (py ''deleted'')"
    by simp
  have n3: "py ''deleted'' \<notin> {py ''draft'', py ''published'', py ''archived''}"
    by (simp add: py_def)
  have "EntryCreateRequest_validate body_today =
          Inr \<lparr>EntryCreateRequest.text = py ''Today was a good day.'',
               EntryCreateRequest.entry_status = PUBLISHED\<rparr>"
    using T [of body_today "py ''Today was a good day.''", THEN conjunct1] t1 s1
    by (rule_tac mp) simp_all
  then have v1: "EntryCreateRequest_validate body_today = Inr request_today"
    by (simp only: request_today_def)
  have p1: "EntryCreateRequest.entry_status request_today = PUBLISHED"
    using T [of body_today _ _ _ request_today, THEN conjunct2, THEN conjunct2, THEN conjunct2,
        THEN mp, OF v1, THEN conjunct2, THEN conjunct1, THEN mp, OF s1] .
  have dr: "py ''draft'' = EntryStatus_value DRAFT"
    by simp
  have v2: "EntryCreateRequest_validate body_blank =
     Inr \<lparr>EntryCreateRequest.text = py '' '', EntryCreateRequest.entry_status = DRAFT\<rparr>"
    using T [of body_blank "py '' ''" "py ''draft''" DRAFT, THEN conjunct2, THEN conjunct1,
        THEN mp, OF conjI [OF t2 s2]] dr
    by (rule_tac iffD2)
  have v3: "EntryCreateRequest_validate (body_blank\<lparr>body_entry_status := Some (py ''deleted'')\<rparr>) =
     Inl RequestValidationError"
    using T [of "body_blank\<lparr>body_entry_status := Some (py ''deleted'')\<rparr>" _ "py ''deleted''",
        THEN conjunct2, THEN conjunct2, THEN conjunct1, THEN mp, OF conjI [OF s3 n3]] .
  show ?thesis
    by (intro conjI t1 s1 v1 p1 t2 s2 v2 n3 v3)
qed

end
